theory Spec2Isabelle
  imports Main "HOL-Library.Word"
begin

unbundle bit_operations_syntax

section \<open>Python values\<close>

text \<open>
  Python integers are unbounded, so they are \<^typ>\<open>int\<close>: \<open>x << n\<close> is
  \<^term>\<open>push_bit n x\<close>, \<open>x >> n\<close> is \<^term>\<open>drop_bit n x\<close>, and \<open>&\<close>, \<open>|\<close>,
  \<open>^\<close> are \<open>AND\<close>, \<open>OR\<close>, \<open>XOR\<close>. Nothing wraps unless the source masks it.
  A byte of a \<open>bytes\<close> object or of a file is an \<^typ>\<open>8 word\<close>.
\<close>

type_synonym byte = "8 word"

text \<open>The exceptions the modelled code can raise without catching them.\<close>

datatype excepcion =
  IndexError | StructError | OverflowError | UnicodeDecodeError | UnicodeEncodeError

text \<open>
  \<open>class TipoMensaje(Enum)\<close>, identical in both programs, and its \<open>.value\<close>. The
  member \<open>LCM\<close> is written \<open>LCM_t\<close>: HOL already has a constant of that name.
\<close>

datatype TipoMensaje = FCM | RM | KUM | LCM_t

fun valor :: "TipoMensaje \<Rightarrow> int" where
  "valor FCM = 0"
| "valor RM = 1"
| "valor KUM = 2"
| "valor LCM_t = 3"

section \<open>Cryptographic primitives of the client (iot\_client.py)\<close>

definition funcion_mezcla :: "int \<Rightarrow> int \<Rightarrow> int" where
  "funcion_mezcla x y = (x XOR y) + ((x AND 0xFFFF) OR push_bit 16 y)"

definition funcion_generacion :: "int \<Rightarrow> int \<Rightarrow> int" where
  "funcion_generacion x y =
     (let rotado = (drop_bit 32 x OR push_bit 32 x) AND 0xFFFFFFFFFFFFFFFF
      in rotado XOR y)"

definition funcion_mutacion :: "int \<Rightarrow> int \<Rightarrow> int" where
  "funcion_mutacion x y = (x + y) XOR (push_bit 8 x OR drop_bit 8 y)"

section \<open>Cryptographic primitives of the server (iot\_server.py)\<close>

definition srv_funcion_mezcla :: "int \<Rightarrow> int \<Rightarrow> int" where
  "srv_funcion_mezcla x y = (x XOR y) + ((x AND 0xFFFF) OR push_bit 16 y)"

definition srv_funcion_generacion :: "int \<Rightarrow> int \<Rightarrow> int" where
  "srv_funcion_generacion x y =
     (let rotado = (drop_bit 32 x OR push_bit 32 x) AND 0xFFFFFFFFFFFFFFFF
      in rotado XOR y)"

definition srv_funcion_mutacion :: "int \<Rightarrow> int \<Rightarrow> int" where
  "srv_funcion_mutacion x y = (x + y) XOR (push_bit 8 x OR drop_bit 8 y)"

text \<open>
  \<open>ServidorIoT.generar_llaves(p, q, s)\<close>: the body of \<open>for i in range(4)\<close> is one
  step of the recursion; the first argument counts the iterations still to run, the
  last is the list \<open>llaves\<close> built so far.
\<close>

fun srv_bucle_llaves :: "nat \<Rightarrow> int \<Rightarrow> int \<Rightarrow> int \<Rightarrow> int list \<Rightarrow> int list" where
  "srv_bucle_llaves 0 p q s llaves = llaves"
| "srv_bucle_llaves (Suc n) p q s llaves =
     (let p0 = srv_funcion_mezcla p s;
          llave = srv_funcion_generacion p0 q
      in srv_bucle_llaves n p q (srv_funcion_mutacion s q) (llaves @ [llave]))"

definition srv_generar_llaves :: "int \<Rightarrow> int \<Rightarrow> int \<Rightarrow> int list" where
  "srv_generar_llaves p q s = srv_bucle_llaves 4 p q s []"

section \<open>The client object\<close>

text \<open>
  \<open>class ClienteIoT\<close>: the fields \<open>self.id\<close>, \<open>self.llaves\<close>, \<open>self.llave_actual\<close>,
  \<open>self.p\<close>, \<open>self.q\<close>, \<open>self.s\<close>. Methods take the object and return it updated.
\<close>

record cliente =
  self_id :: int
  self_llaves :: "int list"
  self_llave_actual :: int
  self_p :: int
  self_q :: int
  self_s :: int

text \<open>
  \<open>ClienteIoT.generar_llaves()\<close>: resets \<open>self.llaves\<close>, then appends one key per
  iteration, reading \<open>self.p\<close> and \<open>self.q\<close> and threading the local seed \<open>s\<close>.
\<close>

fun bucle_llaves :: "nat \<Rightarrow> int \<Rightarrow> cliente \<Rightarrow> cliente" where
  "bucle_llaves 0 s c = c"
| "bucle_llaves (Suc n) s c =
     (let p0 = funcion_mezcla (self_p c) s;
          llave = funcion_generacion p0 (self_q c)
      in bucle_llaves n (funcion_mutacion s (self_q c))
           (c\<lparr>self_llaves := self_llaves c @ [llave]\<rparr>))"

definition generar_llaves :: "cliente \<Rightarrow> cliente" where
  "generar_llaves c = bucle_llaves 4 (self_s c) (c\<lparr>self_llaves := []\<rparr>)"

section \<open>Library functions the programs call\<close>

subsection \<open>struct.pack and struct.unpack\<close>

text \<open>
  Format \<open>B\<close> is one unsigned byte, \<open>Q\<close> an unsigned 64-bit integer in native byte
  order, taken as little-endian here (both programs run on the same machine and no
  result below depends on the order). \<open>pack\<close> raises \<open>struct.error\<close> on a value out
  of range, \<open>unpack\<close> on a buffer of the wrong length. Each \<open>pack\<close> call of the
  source is a call of its own, so no padding separates the header from the fields.
\<close>

fun le_bytes :: "nat \<Rightarrow> int \<Rightarrow> byte list" where
  "le_bytes 0 v = []"
| "le_bytes (Suc n) v = word_of_int v # le_bytes n (drop_bit 8 v)"

fun le_int :: "byte list \<Rightarrow> int" where
  "le_int [] = 0"
| "le_int (b # bs) = uint b + 256 * le_int bs"

definition pack_B :: "int \<Rightarrow> excepcion + byte list" where
  "pack_B v = (if 0 \<le> v \<and> v \<le> 255 then Inr [word_of_int v] else Inl StructError)"

definition unpack_B :: "byte list \<Rightarrow> excepcion + int" where
  "unpack_B bs = (case bs of [b] \<Rightarrow> Inr (uint b) | _ \<Rightarrow> Inl StructError)"

definition pack_Q :: "int \<Rightarrow> excepcion + byte list" where
  "pack_Q v = (if 0 \<le> v \<and> v < 2 ^ 64 then Inr (le_bytes 8 v) else Inl StructError)"

definition unpack_Q :: "byte list \<Rightarrow> excepcion + int" where
  "unpack_Q bs = (if length bs = 8 then Inr (le_int bs) else Inl StructError)"

definition pack_QQQ :: "int \<Rightarrow> int \<Rightarrow> int \<Rightarrow> excepcion + byte list" where
  "pack_QQQ a b c =
     (case pack_Q a of Inl e \<Rightarrow> Inl e | Inr x \<Rightarrow>
      (case pack_Q b of Inl e \<Rightarrow> Inl e | Inr y \<Rightarrow>
       (case pack_Q c of Inl e \<Rightarrow> Inl e | Inr z \<Rightarrow> Inr (x @ y @ z))))"

definition unpack_QQQ :: "byte list \<Rightarrow> excepcion + int \<times> int \<times> int" where
  "unpack_QQQ bs =
     (if length bs = 24
      then Inr (le_int (take 8 bs), le_int (take 8 (drop 8 bs)), le_int (drop 16 bs))
      else Inl StructError)"

subsection \<open>int.from\_bytes and int.to\_bytes, big-endian\<close>

definition from_bytes_big :: "byte list \<Rightarrow> int" where
  "from_bytes_big bs = foldl (\<lambda>a b. a * 256 + uint b) 0 bs"

fun be_bytes :: "nat \<Rightarrow> int \<Rightarrow> byte list" where
  "be_bytes 0 v = []"
| "be_bytes (Suc n) v = be_bytes n (drop_bit 8 v) @ [word_of_int v]"

definition to_bytes_big :: "nat \<Rightarrow> int \<Rightarrow> excepcion + byte list" where
  "to_bytes_big n v =
     (if 0 \<le> v \<and> v < 2 ^ (8 * n) then Inr (be_bytes n v) else Inl OverflowError)"

subsection \<open>Strings: UTF-8, strip\<close>

text \<open>
  A Python \<open>str\<close> is a list of code points. \<open>encode('utf-8')\<close> raises on a lone
  surrogate; \<open>decode('utf-8')\<close> is the strict decoder, which raises on a stray
  continuation byte, a truncated or overlong sequence, a surrogate, or a value
  beyond \<open>U+10FFFF\<close>.
\<close>

type_synonym str = "nat list"

definition encode_cp :: "nat \<Rightarrow> excepcion + byte list" where
  "encode_cp c =
     (if c < 0x80 then Inr [of_nat c]
      else if c < 0x800 then Inr [of_nat (0xC0 + c div 64), of_nat (0x80 + c mod 64)]
      else if 0xD800 \<le> c \<and> c \<le> 0xDFFF then Inl UnicodeEncodeError
      else if c < 0x10000 then
        Inr [of_nat (0xE0 + c div 4096), of_nat (0x80 + c div 64 mod 64),
             of_nat (0x80 + c mod 64)]
      else if c < 0x110000 then
        Inr [of_nat (0xF0 + c div 262144), of_nat (0x80 + c div 4096 mod 64),
             of_nat (0x80 + c div 64 mod 64), of_nat (0x80 + c mod 64)]
      else Inl UnicodeEncodeError)"

fun encode_utf8 :: "str \<Rightarrow> excepcion + byte list" where
  "encode_utf8 [] = Inr []"
| "encode_utf8 (c # cs) =
     (case encode_cp c of Inl e \<Rightarrow> Inl e | Inr x \<Rightarrow>
      (case encode_utf8 cs of Inl e \<Rightarrow> Inl e | Inr y \<Rightarrow> Inr (x @ y)))"

text \<open>
  What a leading byte announces: the number of continuation bytes, the payload
  bits it carries itself, and the range allowed for the first continuation byte.
\<close>

definition cabeza_utf8 :: "byte \<Rightarrow> (nat \<times> nat \<times> byte \<times> byte) option" where
  "cabeza_utf8 b =
     (if b < 0x80 then Some (0, unat b, 0x80, 0xBF)
      else if 0xC2 \<le> b \<and> b \<le> 0xDF then Some (1, unat b - 0xC0, 0x80, 0xBF)
      else if b = 0xE0 then Some (2, 0, 0xA0, 0xBF)
      else if b = 0xED then Some (2, 13, 0x80, 0x9F)
      else if 0xE1 \<le> b \<and> b \<le> 0xEF then Some (2, unat b - 0xE0, 0x80, 0xBF)
      else if b = 0xF0 then Some (3, 0, 0x90, 0xBF)
      else if 0xF1 \<le> b \<and> b \<le> 0xF3 then Some (3, unat b - 0xF0, 0x80, 0xBF)
      else if b = 0xF4 then Some (3, 4, 0x80, 0x8F)
      else None)"

definition es_continuacion :: "byte \<Rightarrow> bool" where
  "es_continuacion b \<longleftrightarrow> 0x80 \<le> b \<and> b \<le> 0xBF"

function decode_utf8 :: "byte list \<Rightarrow> excepcion + str" where
  "decode_utf8 [] = Inr []"
| "decode_utf8 (b # bs) =
     (case cabeza_utf8 b of
        None \<Rightarrow> Inl UnicodeDecodeError
      | Some (n, v, lo, hi) \<Rightarrow>
          (let cs = take n bs in
           if length cs = n \<and> (n = 0 \<or> lo \<le> hd cs \<and> hd cs \<le> hi)
              \<and> list_all es_continuacion cs
           then (case decode_utf8 (drop n bs) of
                   Inl e \<Rightarrow> Inl e
                 | Inr r \<Rightarrow> Inr (foldl (\<lambda>a c. a * 64 + (unat c - 0x80)) v cs # r))
           else Inl UnicodeDecodeError))"
  by pat_completeness auto
termination
  by (relation "measure length") auto

text \<open>\<open>s.strip('\x00')\<close> removes the characters \<open>U+0000\<close> at both ends.\<close>

definition strip_nul :: "str \<Rightarrow> str" where
  "strip_nul xs = rev (dropWhile (\<lambda>c. c = 0) (rev (dropWhile (\<lambda>c. c = 0) xs)))"

subsection \<open>List indexing\<close>

text \<open>\<open>xs[i]\<close>: a negative index counts from the end, anything else out of range raises.\<close>

definition indexar :: "'a list \<Rightarrow> int \<Rightarrow> excepcion + 'a" where
  "indexar xs i =
     (if 0 \<le> i \<and> i < int (length xs) then Inr (xs ! nat i)
      else if i < 0 \<and> - int (length xs) \<le> i then Inr (xs ! nat (int (length xs) + i))
      else Inl IndexError)"

subsection \<open>The random module\<close>

text \<open>
  The random source is the list of raw draws still to come; \<open>getrandbits(k)\<close>
  consumes one and returns its low \<open>k\<close> bits, \<open>randint(0, 63)\<close> consumes one and
  returns it modulo 64. \<open>None\<close> stands for a call that has not returned by the
  time the list is used up.
\<close>

type_synonym azar = "int list"

fun getrandbits :: "nat \<Rightarrow> azar \<Rightarrow> (int \<times> azar) option" where
  "getrandbits k [] = None"
| "getrandbits k (r # rs) = Some (take_bit k r, rs)"


section \<open>The header byte\<close>

text \<open>
  The client writes \<open>(self.id << 2) | TipoMensaje.X.value\<close> in each \<open>crear_*\<close>; the
  server reads \<open>cabecera >> 2\<close> and \<open>cabecera & 0b11\<close> in each \<open>procesar_*\<close>. The
  three expressions are named once here and used at every such place.
\<close>

definition cabecera :: "int \<Rightarrow> TipoMensaje \<Rightarrow> int" where
  "cabecera ident tipo = push_bit 2 ident OR valor tipo"

definition id_de_cabecera :: "int \<Rightarrow> int" where
  "id_de_cabecera h = drop_bit 2 h"

definition tipo_de_cabecera :: "int \<Rightarrow> int" where
  "tipo_de_cabecera h = h AND 3"

section \<open>The cipher\<close>

text \<open>
  \<open>ClienteIoT.cifrar_mensaje(mensaje, llave)\<close>: the message is encoded, padded on
  the right with zero bytes to 8 (\<open>ljust\<close>) and cut to 8 (\<open>[:8]\<close>).
\<close>

definition cifrar_mensaje :: "str \<Rightarrow> int \<Rightarrow> excepcion + int" where
  "cifrar_mensaje mensaje llave =
     (case encode_utf8 mensaje of
        Inl e \<Rightarrow> Inl e
      | Inr codificado \<Rightarrow>
          (let datos = take 8 (codificado @ replicate (8 - length codificado) 0);
               num = from_bytes_big datos;
               num = num XOR llave;
               num = (drop_bit 4 num OR push_bit 60 num) AND 0xFFFFFFFFFFFFFFFF
           in Inr num))"

text \<open>\<open>ServidorIoT.descifrar_mensaje(cifrado, llave)\<close>.\<close>

definition descifrar_mensaje :: "int \<Rightarrow> int \<Rightarrow> excepcion + str" where
  "descifrar_mensaje cifrado llave =
     (let num = (push_bit 4 cifrado OR drop_bit 60 cifrado) AND 0xFFFFFFFFFFFFFFFF;
          num = num XOR llave
      in case to_bytes_big 8 num of
           Inl e \<Rightarrow> Inl e
         | Inr bs \<Rightarrow>
             (case decode_utf8 bs of
                Inl e \<Rightarrow> Inl e
              | Inr texto \<Rightarrow> Inr (strip_nul texto)))"

section \<open>The client's methods\<close>


fun generar_primo :: "nat \<Rightarrow> azar \<Rightarrow> (int \<times> azar) option" where
  "generar_primo bits [] = None"
| "generar_primo bits (r # rs) =
     (let num = take_bit bits r
      in if num > 1 \<and> list_all (\<lambda>i. num mod i \<noteq> 0) [2, 3, 5, 7, 11, 13]
         then Some (num, rs)
         else generar_primo bits rs)"

text \<open>
  What a \<open>crear_*\<close> method leaves behind: the bytes written to its \<open>.bin\<close> file,
  the printed refusal of \<open>crear_rm\<close>, or an exception that leaves the method.
  The \<open>.json\<close> files and the console output repeat the same data and are not
  modelled.
\<close>

datatype salida_cliente =
  Archivo "byte list" | Sin_llaves | Excepcion_cliente excepcion

definition crear_fcm :: "cliente \<Rightarrow> azar \<Rightarrow> (salida_cliente \<times> cliente \<times> azar) option" where
  "crear_fcm c rs =
     (case generar_primo 16 rs of None \<Rightarrow> None | Some (p, rs1) \<Rightarrow>
      (case generar_primo 16 rs1 of None \<Rightarrow> None | Some (q, rs2) \<Rightarrow>
       (case getrandbits 64 rs2 of None \<Rightarrow> None | Some (s, rs3) \<Rightarrow>
          (let c' = generar_llaves (c\<lparr>self_p := p, self_q := q, self_s := s\<rparr>)
           in Some
             (case pack_B (cabecera (self_id c') FCM) of
                Inl e \<Rightarrow> Excepcion_cliente e
              | Inr h \<Rightarrow>
                  (case pack_QQQ (self_p c') (self_q c') (self_s c') of
                     Inl e \<Rightarrow> Excepcion_cliente e
                   | Inr cuerpo \<Rightarrow> Archivo (h @ cuerpo)),
              c', rs3)))))"


definition crear_kum :: "cliente \<Rightarrow> azar \<Rightarrow> (salida_cliente \<times> cliente \<times> azar) option" where
  "crear_kum c rs =
     (case generar_primo 16 rs of None \<Rightarrow> None | Some (p, rs1) \<Rightarrow>
      (case generar_primo 16 rs1 of None \<Rightarrow> None | Some (q, rs2) \<Rightarrow>
       (case getrandbits 64 rs2 of None \<Rightarrow> None | Some (s, rs3) \<Rightarrow>
          (let c' = generar_llaves (c\<lparr>self_p := p, self_q := q, self_s := s\<rparr>)
           in Some
             (case pack_B (cabecera (self_id c') KUM) of
                Inl e \<Rightarrow> Excepcion_cliente e
              | Inr h \<Rightarrow>
                  (case pack_QQQ (self_p c') (self_q c') (self_s c') of
                     Inl e \<Rightarrow> Excepcion_cliente e
                   | Inr cuerpo \<Rightarrow> Archivo (h @ cuerpo)),
              c', rs3)))))"

definition crear_lcm :: "cliente \<Rightarrow> salida_cliente \<times> cliente" where
  "crear_lcm c =
     (case pack_B (cabecera (self_id c) LCM_t) of
        Inl e \<Rightarrow> (Excepcion_cliente e, c)
      | Inr h \<Rightarrow> (Archivo h, c\<lparr>self_llaves := []\<rparr>))"

section \<open>The server\<close>

text \<open>
  \<open>self.clientes\<close> is a dictionary from the client identity to the dictionary
  with the keys \<open>'p'\<close>, \<open>'q'\<close>, \<open>'s'\<close>, \<open>'llaves'\<close>.
\<close>

record registro =
  reg_p :: int
  reg_q :: int
  reg_s :: int
  reg_llaves :: "int list"

record servidor =
  clientes :: "int \<rightharpoonup> registro"

definition nuevo_servidor :: servidor where
  "nuevo_servidor = \<lparr>clientes = Map.empty\<rparr>"

text \<open>
  What a \<open>procesar_*\<close> method reports. The first four are the records it writes to
  its \<open>.json\<close> file (identity, keys or recovered text, status); the next three are
  its printed refusals, each followed by \<open>return\<close>: wrong type tag, client not
  registered, and the caught \<open>FileNotFoundError\<close>. Any other exception is not
  caught by the method, nor by \<open>main\<close>, and ends the program.
\<close>

datatype salida =
  Procesado_FCM int "int list"
| Procesado_RM int str
| Procesado_KUM int "int list"
| Procesado_LCM int string
| Error_tipo
| Error_no_registrado
| Error_archivo
| Excepcion excepcion

text \<open>
  Each method takes the content of the file it opens, \<open>None\<close> when the file does
  not exist, and reads it with successive \<open>f.read(n)\<close>.
\<close>

definition procesar_fcm :: "servidor \<Rightarrow> byte list option \<Rightarrow> salida \<times> servidor" where
  "procesar_fcm sv archivo =
     (case archivo of
        None \<Rightarrow> (Error_archivo, sv)
      | Some f \<Rightarrow>
        (case unpack_B (take 1 f) of
           Inl e \<Rightarrow> (Excepcion e, sv)
         | Inr cab \<Rightarrow>
        (case unpack_QQQ (take 24 (drop 1 f)) of
           Inl e \<Rightarrow> (Excepcion e, sv)
         | Inr (p, q, s) \<Rightarrow>
             (let id_cliente = id_de_cabecera cab;
                  tipo = tipo_de_cabecera cab
              in if tipo \<noteq> valor FCM then (Error_tipo, sv)
                 else
                   (let llaves = srv_generar_llaves p q s
                    in (Procesado_FCM id_cliente llaves,
                        sv\<lparr>clientes := (clientes sv)(id_cliente \<mapsto>
                          \<lparr>reg_p = p, reg_q = q, reg_s = s, reg_llaves = llaves\<rparr>)\<rparr>))))))"

definition procesar_rm :: "servidor \<Rightarrow> byte list option \<Rightarrow> salida \<times> servidor" where
  "procesar_rm sv archivo =
     (case archivo of
        None \<Rightarrow> (Error_archivo, sv)
      | Some f \<Rightarrow>
        (case unpack_B (take 1 f) of
           Inl e \<Rightarrow> (Excepcion e, sv)
         | Inr cab \<Rightarrow>
        (case unpack_B (take 1 (drop 1 f)) of
           Inl e \<Rightarrow> (Excepcion e, sv)
         | Inr idx_llave \<Rightarrow>
        (case unpack_Q (take 8 (drop 2 f)) of
           Inl e \<Rightarrow> (Excepcion e, sv)
         | Inr cifrado \<Rightarrow>
             (let id_cliente = id_de_cabecera cab;
                  tipo = tipo_de_cabecera cab
              in if tipo \<noteq> valor RM then (Error_tipo, sv)
                 else
                   (case clientes sv id_cliente of
                      None \<Rightarrow> (Error_no_registrado, sv)
                    | Some reg \<Rightarrow>
                        (case indexar (reg_llaves reg) idx_llave of
                           Inl e \<Rightarrow> (Excepcion e, sv)
                         | Inr llave \<Rightarrow>
                             (case descifrar_mensaje cifrado llave of
                                Inl e \<Rightarrow> (Excepcion e, sv)
                              | Inr mensaje \<Rightarrow>
                                  (Procesado_RM id_cliente mensaje, sv)))))))))"

definition procesar_kum :: "servidor \<Rightarrow> byte list option \<Rightarrow> salida \<times> servidor" where
  "procesar_kum sv archivo =
     (case archivo of
        None \<Rightarrow> (Error_archivo, sv)
      | Some f \<Rightarrow>
        (case unpack_B (take 1 f) of
           Inl e \<Rightarrow> (Excepcion e, sv)
         | Inr cab \<Rightarrow>
        (case unpack_QQQ (take 24 (drop 1 f)) of
           Inl e \<Rightarrow> (Excepcion e, sv)
         | Inr (p, q, s) \<Rightarrow>
             (let id_cliente = id_de_cabecera cab;
                  tipo = tipo_de_cabecera cab
              in if tipo \<noteq> valor KUM then (Error_tipo, sv)
                 else if clientes sv id_cliente = None then (Error_no_registrado, sv)
                 else
                   (let llaves = srv_generar_llaves p q s
                    in (Procesado_KUM id_cliente llaves,
                        sv\<lparr>clientes := (clientes sv)(id_cliente \<mapsto>
                          \<lparr>reg_p = p, reg_q = q, reg_s = s, reg_llaves = llaves\<rparr>)\<rparr>))))))"

definition procesar_lcm :: "servidor \<Rightarrow> byte list option \<Rightarrow> salida \<times> servidor" where
  "procesar_lcm sv archivo =
     (case archivo of
        None \<Rightarrow> (Error_archivo, sv)
      | Some f \<Rightarrow>
        (case unpack_B (take 1 f) of
           Inl e \<Rightarrow> (Excepcion e, sv)
         | Inr cab \<Rightarrow>
             (let id_cliente = id_de_cabecera cab;
                  tipo = tipo_de_cabecera cab
              in if tipo \<noteq> valor LCM_t then (Error_tipo, sv)
                 else if clientes sv id_cliente \<noteq> None
                 then (Procesado_LCM id_cliente ''Cliente desconectado'',
                       sv\<lparr>clientes := (clientes sv)(id_cliente := None)\<rparr>)
                 else (Procesado_LCM id_cliente ''Cliente no existia'', sv))))"

section \<open>The statements of the specification, for comparison\<close>



text \<open>
  The specification's key schedule: four rounds of
  \<open>p0 = mezcla(P, s); key = generacion(p0, Q); s = mutacion(s, Q)\<close> from \<open>s = S\<close>.
\<close>

fun semillas_spec :: "nat \<Rightarrow> int \<Rightarrow> int \<Rightarrow> int" where
  "semillas_spec 0 Q S = S"
| "semillas_spec (Suc i) Q S = funcion_mutacion (semillas_spec i Q S) Q"

definition llave_spec :: "int \<Rightarrow> int \<Rightarrow> int \<Rightarrow> nat \<Rightarrow> int" where
  "llave_spec P Q S i = funcion_generacion (funcion_mezcla P (semillas_spec i Q S)) Q"

definition key_schedule_spec :: "int \<Rightarrow> int \<Rightarrow> int \<Rightarrow> int list" where
  "key_schedule_spec P Q S = map (llave_spec P Q S) [0, 1, 2, 3]"

section \<open>Facts about the primitives and the key schedule\<close>

lemma mascara_64: "(0xFFFFFFFFFFFFFFFF::int) = mask 64"
  by (simp add: mask_eq_exp_minus_1)

lemma generacion_rango:
  assumes "0 \<le> y" "y < 2 ^ 64"
  shows "0 \<le> funcion_generacion x y \<and> funcion_generacion x y < 2 ^ 64"
proof -
  let ?r = "(drop_bit 32 x OR push_bit 32 x) AND (0xFFFFFFFFFFFFFFFF::int)"
  have r: "?r = take_bit 64 (drop_bit 32 x OR push_bit 32 x)"
    by (simp only: mascara_64 take_bit_eq_mask)
  have r0: "0 \<le> ?r"
    unfolding r by (rule take_bit_nonnegative)
  have r1: "?r < 2 ^ 64"
    unfolding r by (rule take_bit_int_less_exp)
  have "?r XOR y < 2 ^ 64"
    using r0 r1 assms by (intro XOR_upper) 
  moreover have "0 \<le> ?r XOR y" using r0 assms by simp
  ultimately show ?thesis by (simp add: funcion_generacion_def Let_def)
qed

lemma srv_generacion_eq: "srv_funcion_generacion = funcion_generacion"
  by (simp add: fun_eq_iff srv_funcion_generacion_def funcion_generacion_def)
lemma srv_mezcla_eq: "srv_funcion_mezcla = funcion_mezcla"
  by (simp add: fun_eq_iff srv_funcion_mezcla_def funcion_mezcla_def)
lemma srv_mutacion_eq: "srv_funcion_mutacion = funcion_mutacion"
  by (simp add: fun_eq_iff srv_funcion_mutacion_def funcion_mutacion_def)

lemma srv_generar_llaves_spec: "srv_generar_llaves P Q S = key_schedule_spec P Q S"
  by (simp add: srv_generar_llaves_def key_schedule_spec_def llave_spec_def eval_nat_numeral
      Let_def srv_generacion_eq srv_mezcla_eq srv_mutacion_eq)



lemma generar_llaves_spec:
  "self_llaves (generar_llaves c) = key_schedule_spec (self_p c) (self_q c) (self_s c)"
  by (simp add: generar_llaves_def key_schedule_spec_def llave_spec_def eval_nat_numeral
      Let_def)

lemma key_schedule_spec_rango:
  assumes "0 \<le> Q" "Q < 2 ^ 64" "k \<in> set (key_schedule_spec P Q S)"
  shows "0 \<le> k \<and> k < 2 ^ 64"
  using assms(3) generacion_rango [OF assms(1,2)]
  by (auto simp add: key_schedule_spec_def llave_spec_def)

section \<open>Facts about the header byte\<close>

lemma valor_rango: "0 \<le> valor t \<and> valor t < 4"
  by (cases t) simp_all

lemma tres_mascara: "(3::int) = mask 2"
  by (simp add: mask_eq_exp_minus_1)

lemma cabecera_rango:
  assumes "0 \<le> i" "i \<le> 63"
  shows "0 \<le> cabecera i t \<and> cabecera i t \<le> 255"
proof -
  have a: "0 \<le> push_bit 2 i" using assms by simp
  have b: "push_bit 2 i < 2 ^ 8" using assms by (simp add: push_bit_eq_mult)
  have c: "valor t < 2 ^ 8" using valor_rango [of t] by simp
  have "push_bit 2 i OR valor t < 2 ^ 8" using a b c by (rule OR_upper)
  moreover have "0 \<le> push_bit 2 i OR valor t" using a valor_rango [of t] by simp
  ultimately show ?thesis by (simp add: cabecera_def)
qed

lemma id_de_cabecera_cabecera: "id_de_cabecera (cabecera i t) = i"
proof -
  have "drop_bit 2 (valor t) = 0" by (cases t) (simp_all add: drop_bit_eq_div)
  then show ?thesis by (simp add: id_de_cabecera_def cabecera_def drop_bit_push_bit)
qed

lemma tipo_de_cabecera_cabecera: "tipo_de_cabecera (cabecera i t) = valor t"
proof -
  have "take_bit 2 (valor t) = valor t" by (cases t) (simp_all add: take_bit_eq_mod)
  then show ?thesis
    by (simp add: tipo_de_cabecera_def cabecera_def tres_mascara take_bit_push_bit
        flip: take_bit_eq_mask)
qed

lemma uint_byte_of_int:
  "0 \<le> v \<Longrightarrow> v \<le> 255 \<Longrightarrow> uint (word_of_int v :: byte) = v"
  by (simp add: uint_word_of_int take_bit_int_eq_self)

section \<open>Facts about the cipher\<close>

lemma rotacion_inversa:
  "take_bit 64 (push_bit 4 (take_bit 64 (drop_bit 4 (take_bit 64 m) OR push_bit 60 (take_bit 64 m)))
     OR drop_bit 60 (take_bit 64 (drop_bit 4 (take_bit 64 m) OR push_bit 60 (take_bit 64 m))))
   = take_bit 64 (m::int)"
  by (rule bit_eqI) (auto simp add: bit_simps)

lemma from_bytes_big_snoc: "from_bytes_big (bs @ [b]) = from_bytes_big bs * 256 + uint b"
  by (simp add: from_bytes_big_def)

lemma from_bytes_big_rango:
  "0 \<le> from_bytes_big bs \<and> from_bytes_big bs < 2 ^ (8 * length bs)"
proof (induction bs rule: rev_induct)
  case Nil
  show ?case by (simp add: from_bytes_big_def)
next
  case (snoc b bs)
  have b: "0 \<le> uint b" "uint b < 256" 
    using uint_lt2p [of b] by simp_all
  from snoc have "from_bytes_big bs + 1 \<le> 2 ^ (8 * length bs)" by simp
  then have "(from_bytes_big bs + 1) * 256 \<le> 2 ^ (8 * length bs) * 256" by simp
  then show ?case using snoc b by (simp add: from_bytes_big_snoc algebra_simps power_add)
qed

lemma be_bytes_from_bytes_big: "be_bytes (length bs) (from_bytes_big bs) = bs"
proof (induction bs rule: rev_induct)
  case Nil
  show ?case by simp
next
  case (snoc b bs)
  have b: "0 \<le> uint b" "uint b < 256" 
    using uint_lt2p [of b] by simp_all
  have d: "drop_bit 8 (from_bytes_big bs * 256 + uint b) = from_bytes_big bs"
    using b by (simp add: drop_bit_eq_div)
  have z: "(256 :: byte) = 0" by simp
  have w: "(word_of_int (from_bytes_big bs * 256 + uint b) :: byte) = b"
    by (simp add: z)
  have "be_bytes (length (bs @ [b])) (from_bytes_big (bs @ [b]))
        = be_bytes (length bs) (drop_bit 8 (from_bytes_big bs * 256 + uint b))
          @ [word_of_int (from_bytes_big bs * 256 + uint b)]"
    by (simp only: from_bytes_big_snoc length_append_singleton be_bytes.simps)
  also have "\<dots> = bs @ [b]"
    by (simp only: d w snoc)
  finally show ?case .
qed

lemma to_bytes_big_from_bytes_big:
  "to_bytes_big (length bs) (from_bytes_big bs) = Inr bs"
  using from_bytes_big_rango [of bs] by (simp add: to_bytes_big_def be_bytes_from_bytes_big)

lemma encode_utf8_ascii:
  "\<forall>c\<in>set m. c < 128 \<Longrightarrow> encode_utf8 m = Inr (map of_nat m)"
  by (induction m) (simp_all add: encode_cp_def)

lemma cabeza_utf8_ascii: "b < 0x80 \<Longrightarrow> cabeza_utf8 b = Some (0, unat b, 0x80, 0xBF)"
  by (simp add: cabeza_utf8_def)

lemma decode_utf8_ascii:
  "\<forall>b\<in>set bs. b < 0x80 \<Longrightarrow> decode_utf8 bs = Inr (map unat bs)"
  by (induction bs) (simp_all add: cabeza_utf8_ascii)

lemma dropWhile_replicate_append:
  "P x \<Longrightarrow> dropWhile P (replicate j x @ ys) = dropWhile P ys"
  by (induction j) simp_all

lemma dropWhile_cabeza: "ys \<noteq> [] \<Longrightarrow> \<not> P (hd ys) \<Longrightarrow> dropWhile P ys = ys"
  by (cases ys) simp_all

lemma strip_nul_relleno:
  assumes "\<forall>c\<in>set m. c \<noteq> 0"
  shows "strip_nul (m @ replicate j 0) = m"
proof (cases "m = []")
  case True
  then show ?thesis by (simp add: strip_nul_def)
next
  case False
  then have h: "hd m \<noteq> 0" and l: "last m \<noteq> 0" using assms by simp_all
  have a: "dropWhile (\<lambda>c. c = 0) (m @ replicate j 0) = m @ replicate j 0"
    using False h by (intro dropWhile_cabeza) simp_all
  have b: "dropWhile (\<lambda>c. c = 0) (rev m) = rev m"
    using False l by (intro dropWhile_cabeza) (simp_all add: hd_rev)
  have "dropWhile (\<lambda>c. c = 0) (replicate j (0::nat) @ rev m) = rev m"
    by (simp add: dropWhile_replicate_append b)
  then show ?thesis by (simp add: strip_nul_def a)
qed

lemma rotar_ida_y_vuelta:
  assumes "0 \<le> x" "x < 2 ^ 64"
  shows "(push_bit 4 ((drop_bit 4 x OR push_bit 60 x) AND 0xFFFFFFFFFFFFFFFF)
          OR drop_bit 60 ((drop_bit 4 x OR push_bit 60 x) AND 0xFFFFFFFFFFFFFFFF))
         AND 0xFFFFFFFFFFFFFFFF = (x::int)"
proof -
  have x: "take_bit 64 x = x" using assms by (simp add: take_bit_int_eq_self)
  show ?thesis
    using rotacion_inversa [of x] unfolding x
    by (simp only: mascara_64 take_bit_eq_mask)
qed

lemma xor_rango:
  assumes "0 \<le> n" "n < 2 ^ 64" "0 \<le> k" "k < 2 ^ 64"
  shows "0 \<le> n XOR k \<and> n XOR k < (2::int) ^ 64"
proof -
  have "n XOR k < 2 ^ 64" using assms(1,2,4) by (rule XOR_upper)
  then show ?thesis using assms by simp
qed

section \<open>Facts about the callers of the key schedule\<close>


lemma generar_primo_rango:
  "generar_primo bits rs = Some (n, rs') \<Longrightarrow> 1 < n \<and> n < 2 ^ bits"
proof (induction rs)
  case Nil
  then show ?case by simp
next
  case (Cons r rs)
  have "take_bit bits r < 2 ^ bits" by (rule take_bit_int_less_exp)
  with Cons show ?case by (auto simp add: Let_def split: if_splits)
qed

lemma le_int_rango: "0 \<le> le_int bs \<and> le_int bs < 2 ^ (8 * length bs)"
proof (induction bs)
  case Nil
  show ?case by simp
next
  case (Cons b bs)
  have b: "0 \<le> uint b" "uint b < 256"
    using uint_lt2p [of b] by simp_all
  from Cons have "le_int bs + 1 \<le> 2 ^ (8 * length bs)" by simp
  then have "256 * (le_int bs + 1) \<le> 256 * 2 ^ (8 * length bs)" by simp
  then show ?case using Cons b by (simp add: algebra_simps power_add)
qed

lemma unpack_QQQ_rango:
  assumes "unpack_QQQ bs = Inr (p, q, s)"
  shows "0 \<le> q \<and> q < 2 ^ 64"
proof -
  from assms have l: "length bs = 24" and q: "q = le_int (take 8 (drop 8 bs))"
    by (simp_all add: unpack_QQQ_def split: if_splits)
  show ?thesis using le_int_rango [of "take 8 (drop 8 bs)"] l by (simp add: q)
qed

lemma llaves_rango_cliente:
  assumes "0 \<le> self_q c" "self_q c < 2 ^ 64" "k \<in> set (self_llaves (generar_llaves c))"
  shows "0 \<le> k \<and> k < 2 ^ 64"
  using assms key_schedule_spec_rango [of "self_q c" k "self_p c" "self_s c"]
  by (simp add: generar_llaves_spec)

lemma llaves_rango_servidor:
  assumes "0 \<le> q" "q < 2 ^ 64" "k \<in> set (srv_generar_llaves p q s)"
  shows "0 \<le> k \<and> k < 2 ^ 64"
  using assms key_schedule_spec_rango [of q k p s]
  by (simp add: srv_generar_llaves_spec)

lemma crear_fcm_llaves:
  assumes "crear_fcm c rs = Some (out, c', rs')"
  shows "\<exists>p q s. 1 < q \<and> q < 2 ^ 16
           \<and> c' = generar_llaves (c\<lparr>self_p := p, self_q := q, self_s := s\<rparr>)"
proof -
  from assms obtain p rs1 q rs2 s
    where q: "generar_primo 16 rs1 = Some (q, rs2)"
      and c': "c' = generar_llaves (c\<lparr>self_p := p, self_q := q, self_s := s\<rparr>)"
    by (auto simp add: crear_fcm_def Let_def split: option.splits)
  from generar_primo_rango [OF q] c' show ?thesis by blast
qed

lemma crear_kum_llaves:
  assumes "crear_kum c rs = Some (out, c', rs')"
  shows "\<exists>p q s. 1 < q \<and> q < 2 ^ 16
           \<and> c' = generar_llaves (c\<lparr>self_p := p, self_q := q, self_s := s\<rparr>)"
proof -
  from assms obtain p rs1 q rs2 s
    where q: "generar_primo 16 rs1 = Some (q, rs2)"
      and c': "c' = generar_llaves (c\<lparr>self_p := p, self_q := q, self_s := s\<rparr>)"
    by (auto simp add: crear_kum_def Let_def split: option.splits)
  from generar_primo_rango [OF q] c' show ?thesis by blast
qed

lemma procesar_fcm_llaves:
  assumes "procesar_fcm sv f = (Procesado_FCM i ks, sv')"
  shows "\<exists>p q s. 0 \<le> q \<and> q < 2 ^ 64 \<and> ks = srv_generar_llaves p q s
           \<and> clientes sv' i = Some \<lparr>reg_p = p, reg_q = q, reg_s = s, reg_llaves = ks\<rparr>"
proof -
  from assms obtain bs p q s
    where u: "unpack_QQQ bs = Inr (p, q, s)"
      and ks: "ks = srv_generar_llaves p q s"
      and sv': "clientes sv' i = Some \<lparr>reg_p = p, reg_q = q, reg_s = s, reg_llaves = ks\<rparr>"
    by (auto simp add: procesar_fcm_def Let_def split: option.splits sum.splits if_splits)
  from unpack_QQQ_rango [OF u] ks sv' show ?thesis by blast
qed

lemma procesar_kum_llaves:
  assumes "procesar_kum sv f = (Procesado_KUM i ks, sv')"
  shows "\<exists>p q s. 0 \<le> q \<and> q < 2 ^ 64 \<and> ks = srv_generar_llaves p q s
           \<and> clientes sv' i = Some \<lparr>reg_p = p, reg_q = q, reg_s = s, reg_llaves = ks\<rparr>"
proof -
  from assms obtain bs p q s
    where u: "unpack_QQQ bs = Inr (p, q, s)"
      and ks: "ks = srv_generar_llaves p q s"
      and sv': "clientes sv' i = Some \<lparr>reg_p = p, reg_q = q, reg_s = s, reg_llaves = ks\<rparr>"
    by (auto simp add: procesar_kum_def Let_def split: option.splits sum.splits if_splits)
  from unpack_QQQ_rango [OF u] ks sv' show ?thesis by blast
qed

section \<open>A run of the two programs\<close>

text \<open>
  A client with identity 5 whose random source yields 4 (rejected by the trial
  division), 17, 19 and 12345 creates its first-contact file; the server processes it.
  Later the client, having sent one message, draws 23, 29 and 777 for a key update.
\<close>

lemma ej_crear_fcm:
  "crear_fcm \<lparr>self_id = 5, self_llaves = [], self_llave_actual = 0,
                 self_p = 0, self_q = 0, self_s = 0\<rparr> [4, 17, 19, 12345]
     = Some (Archivo [20, 17, 0, 0, 0, 0, 0, 0, 0, 19, 0, 0, 0, 0, 0, 0, 0,
                      57, 48, 0, 0, 0, 0, 0, 0],
             \<lparr>self_id = 5,
               self_llaves = [3474861608864317459, 683431611504525347,
                              8473598973221810218, 2589035921306290623],
               self_llave_actual = 0, self_p = 17, self_q = 19, self_s = 12345\<rparr>, [])"
  by code_simp

lemma ej_procesar_fcm:
  "fst (procesar_fcm nuevo_servidor
      (Some [20, 17, 0, 0, 0, 0, 0, 0, 0, 19, 0, 0, 0, 0, 0, 0, 0, 57, 48, 0, 0, 0, 0, 0, 0]))
   = Procesado_FCM 5 [3474861608864317459, 683431611504525347, 8473598973221810218,
                      2589035921306290623]"
  by code_simp

lemma ej_tabla:
  "clientes (snd (procesar_fcm nuevo_servidor
      (Some [20, 17, 0, 0, 0, 0, 0, 0, 0, 19, 0, 0, 0, 0, 0, 0, 0, 57, 48, 0, 0, 0, 0, 0, 0]))) 5
   = Some \<lparr>reg_p = 17, reg_q = 19, reg_s = 12345,
        reg_llaves = [3474861608864317459, 683431611504525347, 8473598973221810218,
                      2589035921306290623]\<rparr>"
  by code_simp


lemma ej_tabla_kum:
  "clientes (snd (procesar_kum (snd (procesar_fcm nuevo_servidor
      (Some [20, 17, 0, 0, 0, 0, 0, 0, 0, 19, 0, 0, 0, 0, 0, 0, 0, 57, 48, 0, 0, 0, 0, 0, 0])))
      (Some [22, 23, 0, 0, 0, 0, 0, 0, 0, 29, 0, 0, 0, 0, 0, 0, 0, 9, 3, 0, 0, 0, 0, 0, 0]))) 5
   = Some \<lparr>reg_p = 23, reg_q = 29, reg_s = 777,
        reg_llaves = [218709583072329757, 732127718778339358, 3408147856085746452,
                      8756527706168035893]\<rparr>"
  by code_simp

lemma ej_tabla_lcm:
  "clientes (snd (procesar_lcm (snd (procesar_fcm nuevo_servidor
      (Some [20, 17, 0, 0, 0, 0, 0, 0, 0, 19, 0, 0, 0, 0, 0, 0, 0, 57, 48, 0, 0, 0, 0, 0, 0])))
      (Some [23]))) 5 = None"
  by code_simp

section \<open>The claims\<close>

text \<open>
  C1. For every plaintext of 1 to 8 ASCII characters, none of them \<open>U+0000\<close>, and
  every key \<open>0 \<le> k < 2^64\<close>, \<open>cifrar_mensaje\<close> returns a ciphertext, and
  \<open>descifrar_mensaje\<close> of that ciphertext under the same key returns the plaintext.
\<close>

theorem descifrar_cifrar:
  assumes "1 \<le> length m" "length m \<le> 8" "\<forall>c\<in>set m. 0 < c \<and> c < 128"
    and "0 \<le> k" "k < 2 ^ 64"
  shows "(case cifrar_mensaje m k of
            Inl e \<Rightarrow> Inl e
          | Inr cifrado \<Rightarrow> descifrar_mensaje cifrado k) = Inr m"
proof -
  define datos :: "byte list" where "datos = map of_nat m @ replicate (8 - length m) 0"
  define n where "n = from_bytes_big datos"
  define cifrado where
    "cifrado = (drop_bit 4 (n XOR k) OR push_bit 60 (n XOR k)) AND 0xFFFFFFFFFFFFFFFF"
  have len: "length datos = 8" using assms(2) by (simp add: datos_def)
  have enc: "encode_utf8 m = Inr (map of_nat m)"
    using assms(3) by (intro encode_utf8_ascii) simp
  have cif: "cifrar_mensaje m k = Inr cifrado"
    using assms(2) by (simp add: cifrar_mensaje_def enc Let_def cifrado_def n_def datos_def)
  have n: "0 \<le> n" "n < 2 ^ 64"
    using from_bytes_big_rango [of datos] by (simp_all add: n_def len)
  have x: "0 \<le> n XOR k" "n XOR k < 2 ^ 64"
    using xor_rango [OF n assms(4,5)] by simp_all
  have rot: "(push_bit 4 cifrado OR drop_bit 60 cifrado) AND 0xFFFFFFFFFFFFFFFF = n XOR k"
    unfolding cifrado_def by (rule rotar_ida_y_vuelta [OF x])
  have vuelta: "(n XOR k) XOR k = n"
    by (simp add: xor.assoc)
  have bytes: "to_bytes_big 8 n = Inr datos"
    using to_bytes_big_from_bytes_big [of datos] by (simp add: n_def len)
  have small: "\<forall>b\<in>set datos. b < 0x80"
  proof
    fix b assume "b \<in> set datos"
    then consider c where "c \<in> set m" "b = of_nat c" | "b = 0"
      by (auto simp add: datos_def)
    then show "b < 0x80"
    proof cases
      case 1
      then have "c < 128" using assms(3) by simp
      then have "unat (of_nat c :: byte) = c" by (simp add: unat_of_nat)
      then show ?thesis using \<open>c < 128\<close> 1 by (simp add: word_less_nat_alt)
    next
      case 2
      then show ?thesis by simp
    qed
  qed
  have chars: "map unat datos = m @ replicate (8 - length m) 0"
  proof -
    have "map (\<lambda>c. unat (of_nat c :: byte)) m = map (\<lambda>c. c) m"
      using assms(3) by (intro map_cong) (auto simp add: unat_of_nat)
    then show ?thesis by (simp add: datos_def comp_def)
  qed
  have dec: "decode_utf8 datos = Inr (m @ replicate (8 - length m) 0)"
    using decode_utf8_ascii [OF small] by (simp add: chars)
  have strip: "strip_nul (m @ replicate (8 - length m) 0) = m"
    using assms(3) by (intro strip_nul_relleno) auto
  have "descifrar_mensaje cifrado k = Inr m"
    by (simp add: descifrar_mensaje_def Let_def rot vuelta bytes dec strip)
  then show ?thesis by (simp add: cif)
qed

theorem descifrar_cifrar_testigo:
  "(case cifrar_mensaje [104, 105] 0x1991900000000 of
      Inl e \<Rightarrow> Inl e
    | Inr cifrado \<Rightarrow> descifrar_mensaje cifrado 0x1991900000000) = Inr [104, 105]
   \<and> cifrar_mensaje [104, 105] 0x1991900000000 = Inr 470214469385977856"
proof -
  have a: "(case cifrar_mensaje [104, 105] 0x1991900000000 of
      Inl e \<Rightarrow> Inl e
    | Inr cifrado \<Rightarrow> descifrar_mensaje cifrado 0x1991900000000) = Inr [104, 105]"
    by (rule descifrar_cifrar) simp_all
  have b: "cifrar_mensaje [104, 105] 0x1991900000000 = Inr 470214469385977856"
    by code_simp
  show ?thesis using a b by simp
qed

text \<open>
  C8. For every identity in \<open>[0, 63]\<close> and every message type, the header the client
  packs is one byte, and the identity and the type tag the server extracts from that
  byte are the original ones.
\<close>







text \<open>
  C4. For a client whose fields are \<open>P\<close>, \<open>Q\<close>, \<open>S\<close>, the keys \<open>generar_llaves\<close>
  stores are the list the server's \<open>generar_llaves(P, Q, S)\<close> returns; that list is
  the four keys of the iteration \<open>p0 = mezcla(P, s); key = generacion(p0, Q);
  s = mutacion(s, Q)\<close> from \<open>s = S\<close>, a function of \<open>(P, Q, S)\<close> alone.
\<close>

theorem generar_llaves_cliente_servidor:
  assumes "self_p c = P" "self_q c = Q" "self_s c = S"
  shows "self_llaves (generar_llaves c) = srv_generar_llaves P Q S
         \<and> srv_generar_llaves P Q S = key_schedule_spec P Q S
         \<and> length (srv_generar_llaves P Q S) = 4"
  using assms generar_llaves_spec [of c]
  by (simp add: srv_generar_llaves_spec key_schedule_spec_def)

theorem generar_llaves_cliente_servidor_testigo:
  "self_llaves (generar_llaves \<lparr>self_id = 5, self_llaves = [1, 2], self_llave_actual = 3,
       self_p = 104729, self_q = 65537, self_s = 0\<rparr>)
     = [618140283240449, 72674630514573312, 73520167841235202, 362877539116384772]
   \<and> srv_generar_llaves 104729 65537 0
     = [618140283240449, 72674630514573312, 73520167841235202, 362877539116384772]
   \<and> key_schedule_spec 104729 65537 0
     = [618140283240449, 72674630514573312, 73520167841235202, 362877539116384772]"
proof -
  have "key_schedule_spec 104729 65537 0
     = [618140283240449, 72674630514573312, 73520167841235202, 362877539116384772]"
    by (simp add: key_schedule_spec_def llave_spec_def eval_nat_numeral
        funcion_generacion_def funcion_mezcla_def funcion_mutacion_def)
  then show ?thesis
    using generar_llaves_cliente_servidor [of "\<lparr>self_id = 5, self_llaves = [1, 2],
      self_llave_actual = 3, self_p = 104729, self_q = 65537, self_s = 0\<rparr>" 104729 65537 0]
    by simp
qed

text \<open>
  C5. A regular message from a registered client whose key index is not below the
  length of the stored schedule: the list access raises \<open>IndexError\<close>, which
  \<open>procesar_rm\<close> does not catch; the table is unchanged.
\<close>

theorem procesar_rm_indice_fuera_de_rango:
  assumes "8 \<le> length cuerpo"
    and "tipo_de_cabecera (uint h) = valor RM"
    and "clientes sv (id_de_cabecera (uint h)) = Some reg"
    and "int (length (reg_llaves reg)) \<le> uint idx"
  shows "procesar_rm sv (Some (h # idx # cuerpo)) = (Excepcion IndexError, sv)"
proof -
  have "indexar (reg_llaves reg) (uint idx) = Inl IndexError"
    using assms(4) by (simp add: indexar_def)
  then show ?thesis
    using assms(1,2,3)
    by (simp add: procesar_rm_def unpack_B_def unpack_Q_def Let_def)
qed

theorem procesar_rm_indice_fuera_de_rango_testigo:
  "procesar_rm
     (snd (procesar_fcm nuevo_servidor
        (Some [20, 17, 0, 0, 0, 0, 0, 0, 0, 19, 0, 0, 0, 0, 0, 0, 0, 57, 48, 0, 0, 0, 0, 0, 0])))
     (Some [21, 4, 0, 0, 0, 0, 0, 0, 0, 0])
   = (Excepcion IndexError,
      snd (procesar_fcm nuevo_servidor
        (Some [20, 17, 0, 0, 0, 0, 0, 0, 0, 19, 0, 0, 0, 0, 0, 0, 0, 57, 48, 0, 0, 0, 0, 0, 0])))"
  using ej_tabla
    procesar_rm_indice_fuera_de_rango [of "[0, 0, 0, 0, 0, 0, 0, 0]" 21
      "snd (procesar_fcm nuevo_servidor
        (Some [20, 17, 0, 0, 0, 0, 0, 0, 0, 19, 0, 0, 0, 0, 0, 0, 0, 57, 48, 0, 0, 0, 0, 0, 0]))"
      "\<lparr>reg_p = 17, reg_q = 19, reg_s = 12345,
        reg_llaves = [3474861608864317459, 683431611504525347, 8473598973221810218,
                      2589035921306290623]\<rparr>" 4]
  by (simp add: tipo_de_cabecera_def id_de_cabecera_def)

text \<open>
  C6. A regular message (type tag \<open>RM\<close>, at least the 10 bytes of the frame) whose
  identity has no entry in the table: \<open>procesar_rm\<close> reports that the client is not
  registered, recovers no text, and returns the table as it was.
\<close>

theorem procesar_rm_cliente_no_registrado:
  assumes "8 \<le> length cuerpo"
    and "tipo_de_cabecera (uint h) = valor RM"
    and "clientes sv (id_de_cabecera (uint h)) = None"
  shows "procesar_rm sv (Some (h # idx # cuerpo)) = (Error_no_registrado, sv)"
  using assms
  by (simp add: procesar_rm_def unpack_B_def unpack_Q_def Let_def)

theorem procesar_rm_cliente_no_registrado_testigo:
  "procesar_rm nuevo_servidor (Some [21, 0, 0, 0, 0, 0, 0, 0, 0, 0])
     = (Error_no_registrado, nuevo_servidor)
   \<and> clientes nuevo_servidor 5 = None"
  using procesar_rm_cliente_no_registrado
    [of "[0, 0, 0, 0, 0, 0, 0, 0]" 21 nuevo_servidor 0]
  by (simp add: tipo_de_cabecera_def id_de_cabecera_def nuevo_servidor_def)

text \<open>
  C7. A last-contact message processed twice for an identity that has an entry: the
  first call reports \<open>Cliente desconectado\<close>, the second reports
  \<open>Cliente no existia\<close> (a processed message, not an error), and after either call
  the table has no entry for the identity.
\<close>

theorem procesar_lcm_dos_veces:
  assumes "tipo_de_cabecera (uint h) = valor LCM_t"
    and "clientes sv (id_de_cabecera (uint h)) \<noteq> None"
  shows "fst (procesar_lcm sv (Some (h # resto)))
           = Procesado_LCM (id_de_cabecera (uint h)) ''Cliente desconectado''
       \<and> fst (procesar_lcm (snd (procesar_lcm sv (Some (h # resto)))) (Some (h # resto)))
           = Procesado_LCM (id_de_cabecera (uint h)) ''Cliente no existia''
       \<and> clientes (snd (procesar_lcm sv (Some (h # resto)))) (id_de_cabecera (uint h)) = None
       \<and> clientes (snd (procesar_lcm (snd (procesar_lcm sv (Some (h # resto))))
            (Some (h # resto)))) (id_de_cabecera (uint h)) = None"
  using assms
  by (auto simp add: procesar_lcm_def unpack_B_def Let_def)

theorem procesar_lcm_dos_veces_testigo:
  "fst (procesar_lcm
     (snd (procesar_fcm nuevo_servidor
        (Some [20, 17, 0, 0, 0, 0, 0, 0, 0, 19, 0, 0, 0, 0, 0, 0, 0, 57, 48, 0, 0, 0, 0, 0, 0])))
     (Some [23])) = Procesado_LCM 5 ''Cliente desconectado''
   \<and> fst (procesar_lcm (snd (procesar_lcm
     (snd (procesar_fcm nuevo_servidor
        (Some [20, 17, 0, 0, 0, 0, 0, 0, 0, 19, 0, 0, 0, 0, 0, 0, 0, 57, 48, 0, 0, 0, 0, 0, 0])))
     (Some [23]))) (Some [23])) = Procesado_LCM 5 ''Cliente no existia''"
  using ej_tabla
    procesar_lcm_dos_veces [of 23 "snd (procesar_fcm nuevo_servidor
        (Some [20, 17, 0, 0, 0, 0, 0, 0, 0, 19, 0, 0, 0, 0, 0, 0, 0, 57, 48, 0, 0, 0, 0, 0, 0]))" "[]"]
  by (simp add: tipo_de_cabecera_def id_de_cabecera_def)

text \<open>
  For an identity with no entry the first call already reports
  \<open>Cliente no existia\<close> and leaves the table as it was.
\<close>

lemma procesar_lcm_no_registrado:
  assumes "tipo_de_cabecera (uint h) = valor LCM_t"
    and "clientes sv (id_de_cabecera (uint h)) = None"
  shows "procesar_lcm sv (Some (h # resto))
           = (Procesado_LCM (id_de_cabecera (uint h)) ''Cliente no existia'', sv)"
  using assms
  by (auto simp add: procesar_lcm_def unpack_B_def Let_def)

text \<open>
  C8. For every identity in \<open>[0, 63]\<close> and every message type, the header the client
  packs is one byte, and the identity and the type tag the server extracts from that
  byte are the original ones.
\<close>

theorem cabecera_ida_y_vuelta:
  assumes "0 \<le> i" "i \<le> 63"
  shows "(case pack_B (cabecera i t) of
            Inl e \<Rightarrow> None
          | Inr bs \<Rightarrow> (case unpack_B bs of
                         Inl e \<Rightarrow> None
                       | Inr h \<Rightarrow> Some (id_de_cabecera h, tipo_de_cabecera h)))
         = Some (i, valor t)"
  using cabecera_rango [OF assms, of t]
  by (simp add: pack_B_def unpack_B_def uint_byte_of_int id_de_cabecera_cabecera
      tipo_de_cabecera_cabecera)

theorem cabecera_ida_y_vuelta_testigo:
  "(case pack_B (cabecera 5 RM) of
            Inl e \<Rightarrow> None
          | Inr bs \<Rightarrow> (case unpack_B bs of
                         Inl e \<Rightarrow> None
                       | Inr h \<Rightarrow> Some (id_de_cabecera h, tipo_de_cabecera h)))
         = Some (5, 1) \<and> pack_B (cabecera 5 RM) = Inr [21]"
  using cabecera_ida_y_vuelta [of 5 RM]
  by (simp add: pack_B_def cabecera_def)

text \<open>
  C9. Every key stored by \<open>crear_fcm\<close> or \<open>crear_kum\<close> in the client, and every
  key stored by \<open>procesar_fcm\<close> or \<open>procesar_kum\<close> in the server's table, lies in
  \<open>[0, 2^64)\<close>, so \<open>struct.pack('Q', key)\<close> succeeds on it.
\<close>

theorem llaves_menores_que_2_64:
  "(crear_fcm c rs = Some (out, c', rs') \<or> crear_kum c rs = Some (out, c', rs')
      \<longrightarrow> (\<forall>k\<in>set (self_llaves c'). 0 \<le> k \<and> k < 2 ^ 64 \<and> pack_Q k = Inr (le_bytes 8 k)))
   \<and> (procesar_fcm sv f = (Procesado_FCM i ks, sv')
       \<or> procesar_kum sv f = (Procesado_KUM i ks, sv')
      \<longrightarrow> (\<exists>reg. clientes sv' i = Some reg \<and> reg_llaves reg = ks)
          \<and> (\<forall>k\<in>set ks. 0 \<le> k \<and> k < 2 ^ 64 \<and> pack_Q k = Inr (le_bytes 8 k)))"
proof (intro conjI impI)
  assume "crear_fcm c rs = Some (out, c', rs') \<or> crear_kum c rs = Some (out, c', rs')"
  then obtain p q s where q: "1 < q" "q < 2 ^ 16"
    and c': "c' = generar_llaves (c\<lparr>self_p := p, self_q := q, self_s := s\<rparr>)"
    using crear_fcm_llaves crear_kum_llaves by blast
  have "0 \<le> k \<and> k < 2 ^ 64" if "k \<in> set (self_llaves c')" for k
    using that q llaves_rango_cliente [of "c\<lparr>self_p := p, self_q := q, self_s := s\<rparr>" k]
    by (simp add: c')
  then show "\<forall>k\<in>set (self_llaves c'). 0 \<le> k \<and> k < 2 ^ 64 \<and> pack_Q k = Inr (le_bytes 8 k)"
    by (simp add: pack_Q_def)
next
  assume a: "procesar_fcm sv f = (Procesado_FCM i ks, sv')
    \<or> procesar_kum sv f = (Procesado_KUM i ks, sv')"
  then obtain p q s where q: "0 \<le> q" "q < 2 ^ 64" and ks: "ks = srv_generar_llaves p q s"
    and sv': "clientes sv' i = Some \<lparr>reg_p = p, reg_q = q, reg_s = s, reg_llaves = ks\<rparr>"
    using procesar_fcm_llaves procesar_kum_llaves by blast
  from sv' show "\<exists>reg. clientes sv' i = Some reg \<and> reg_llaves reg = ks" by simp
  have "0 \<le> k \<and> k < 2 ^ 64" if "k \<in> set ks" for k
    using that q llaves_rango_servidor [of q k p s] by (simp add: ks)
  then show "\<forall>k\<in>set ks. 0 \<le> k \<and> k < 2 ^ 64 \<and> pack_Q k = Inr (le_bytes 8 k)"
    by (simp add: pack_Q_def)
qed

theorem llaves_menores_que_2_64_testigo:
  "crear_fcm \<lparr>self_id = 5, self_llaves = [], self_llave_actual = 0,
                 self_p = 0, self_q = 0, self_s = 0\<rparr> [4, 17, 19, 12345]
     = Some (Archivo [20, 17, 0, 0, 0, 0, 0, 0, 0, 19, 0, 0, 0, 0, 0, 0, 0,
                      57, 48, 0, 0, 0, 0, 0, 0],
             \<lparr>self_id = 5,
               self_llaves = [3474861608864317459, 683431611504525347,
                              8473598973221810218, 2589035921306290623],
               self_llave_actual = 0, self_p = 17, self_q = 19, self_s = 12345\<rparr>, [])
   \<and> fst (procesar_fcm nuevo_servidor
      (Some [20, 17, 0, 0, 0, 0, 0, 0, 0, 19, 0, 0, 0, 0, 0, 0, 0, 57, 48, 0, 0, 0, 0, 0, 0]))
     = Procesado_FCM 5 [3474861608864317459, 683431611504525347, 8473598973221810218,
                        2589035921306290623]
   \<and> list_all (\<lambda>k. 0 \<le> k \<and> k < 2 ^ 64 \<and> pack_Q k = Inr (le_bytes 8 k))
        [3474861608864317459, 683431611504525347, 8473598973221810218,
         2589035921306290623]"
proof -
  let ?c0 = "\<lparr>self_id = 5, self_llaves = [], self_llave_actual = 0,
              self_p = 0, self_q = 0, self_s = 0\<rparr>"
  let ?ks = "[3474861608864317459, 683431611504525347, 8473598973221810218,
              2589035921306290623] :: int list"
  let ?c1 = "\<lparr>self_id = 5, self_llaves = ?ks,
              self_llave_actual = 0, self_p = 17, self_q = 19, self_s = 12345\<rparr>"
  let ?bs = "[20, 17, 0, 0, 0, 0, 0, 0, 0, 19, 0, 0, 0, 0, 0, 0, 0, 57, 48, 0, 0, 0, 0, 0, 0]
              :: byte list"
  have p: "procesar_fcm nuevo_servidor (Some ?bs)
             = (Procesado_FCM 5 ?ks, snd (procesar_fcm nuevo_servidor (Some ?bs)))"
    using ej_procesar_fcm by (simp add: prod_eq_iff)
  note t = llaves_menores_que_2_64
      [of ?c0 "[4, 17, 19, 12345]" "Archivo ?bs" ?c1 "[]"
          nuevo_servidor "Some ?bs" 5 ?ks "snd (procesar_fcm nuevo_servidor (Some ?bs))"]
  have a: "\<forall>k\<in>set (self_llaves ?c1). 0 \<le> k \<and> k < 2 ^ 64 \<and> pack_Q k = Inr (le_bytes 8 k)"
    using t ej_crear_fcm by blast
  have b: "\<forall>k\<in>set ?ks. 0 \<le> k \<and> k < 2 ^ 64 \<and> pack_Q k = Inr (le_bytes 8 k)"
    using t p by blast
  from a b have "list_all (\<lambda>k. 0 \<le> k \<and> k < 2 ^ 64 \<and> pack_Q k = Inr (le_bytes 8 k)) ?ks"
    by (simp only: list_all_iff)
  then show ?thesis using ej_crear_fcm ej_procesar_fcm by simp
qed

text \<open>
  C10. \<open>procesar_rm\<close> returns the table it was given, whatever the file holds and
  whichever way the call ends. The other three methods do change it: in the run
  above \<open>procesar_fcm\<close> creates the entry of client 5, \<open>procesar_kum\<close> replaces it
  and \<open>procesar_lcm\<close> deletes it.
\<close>

theorem procesar_rm_no_modifica_tabla:
  "snd (procesar_rm sv archivo) = sv
   \<and> clientes (snd (procesar_fcm nuevo_servidor
        (Some [20, 17, 0, 0, 0, 0, 0, 0, 0, 19, 0, 0, 0, 0, 0, 0, 0,
               57, 48, 0, 0, 0, 0, 0, 0]))) 5
       \<noteq> clientes nuevo_servidor 5
   \<and> clientes (snd (procesar_kum (snd (procesar_fcm nuevo_servidor
        (Some [20, 17, 0, 0, 0, 0, 0, 0, 0, 19, 0, 0, 0, 0, 0, 0, 0,
               57, 48, 0, 0, 0, 0, 0, 0])))
        (Some [22, 23, 0, 0, 0, 0, 0, 0, 0, 29, 0, 0, 0, 0, 0, 0, 0,
               9, 3, 0, 0, 0, 0, 0, 0]))) 5
       \<noteq> clientes (snd (procesar_fcm nuevo_servidor
        (Some [20, 17, 0, 0, 0, 0, 0, 0, 0, 19, 0, 0, 0, 0, 0, 0, 0,
               57, 48, 0, 0, 0, 0, 0, 0]))) 5
   \<and> clientes (snd (procesar_lcm (snd (procesar_fcm nuevo_servidor
        (Some [20, 17, 0, 0, 0, 0, 0, 0, 0, 19, 0, 0, 0, 0, 0, 0, 0,
               57, 48, 0, 0, 0, 0, 0, 0])))
        (Some [23]))) 5
       \<noteq> clientes (snd (procesar_fcm nuevo_servidor
        (Some [20, 17, 0, 0, 0, 0, 0, 0, 0, 19, 0, 0, 0, 0, 0, 0, 0,
               57, 48, 0, 0, 0, 0, 0, 0]))) 5"
proof -
  have rm: "snd (procesar_rm sv archivo) = sv"
    by (simp add: procesar_rm_def Let_def split: option.split sum.split)
  have vacia: "clientes nuevo_servidor 5 = None"
    by (simp add: nuevo_servidor_def)
  show ?thesis
    by (simp add: rm ej_tabla ej_tabla_kum ej_tabla_lcm vacia)
qed

theorem procesar_rm_no_modifica_tabla_testigo:
  "snd (procesar_rm (snd (procesar_fcm nuevo_servidor
        (Some [20, 17, 0, 0, 0, 0, 0, 0, 0, 19, 0, 0, 0, 0, 0, 0, 0,
               57, 48, 0, 0, 0, 0, 0, 0])))
        (Some [21, 0, 1, 0, 0, 144, 3, 3, 133, 53]))
     = snd (procesar_fcm nuevo_servidor
        (Some [20, 17, 0, 0, 0, 0, 0, 0, 0, 19, 0, 0, 0, 0, 0, 0, 0,
               57, 48, 0, 0, 0, 0, 0, 0]))
   \<and> fst (procesar_rm (snd (procesar_fcm nuevo_servidor
        (Some [20, 17, 0, 0, 0, 0, 0, 0, 0, 19, 0, 0, 0, 0, 0, 0, 0,
               57, 48, 0, 0, 0, 0, 0, 0])))
        (Some [21, 0, 1, 0, 0, 144, 3, 3, 133, 53]))
     = Procesado_RM 5 [104, 105]"
proof -
  have "fst (procesar_rm (snd (procesar_fcm nuevo_servidor
        (Some [20, 17, 0, 0, 0, 0, 0, 0, 0, 19, 0, 0, 0, 0, 0, 0, 0,
               57, 48, 0, 0, 0, 0, 0, 0])))
        (Some [21, 0, 1, 0, 0, 144, 3, 3, 133, 53]))
     = Procesado_RM 5 [104, 105]"
    by code_simp
  then show ?thesis
    using procesar_rm_no_modifica_tabla [of "snd (procesar_fcm nuevo_servidor
        (Some [20, 17, 0, 0, 0, 0, 0, 0, 0, 19, 0, 0, 0, 0, 0, 0, 0,
               57, 48, 0, 0, 0, 0, 0, 0]))" "Some [21, 0, 1, 0, 0, 144, 3, 3, 133, 53]"]
    by simp
qed

text \<open>The failure path of a wrong type tag: a printed refusal, the table as it was.\<close>

lemma procesar_rm_tipo_invalido:
  assumes "8 \<le> length cuerpo" and "tipo_de_cabecera (uint h) \<noteq> valor RM"
  shows "procesar_rm sv (Some (h # idx # cuerpo)) = (Error_tipo, sv)"
  using assms
  by (simp add: procesar_rm_def unpack_B_def unpack_Q_def Let_def)

end
